theory Spec2Isabelle
  imports Main "HOL-Library.Word" "HOL-Library.Signed_Division" "HOL-Library.Sublist"
begin

section \<open>The overseer worker: data model\<close>

text \<open>
  The worker (\<^verbatim>\<open>workerCmd\<close> and its methods \<^verbatim>\<open>notify\<close>, \<^verbatim>\<open>runTest\<close> and
  \<^verbatim>\<open>workerLoop\<close>) is embedded function by function.  Go's \<^verbatim>\<open>int64\<close>, \<^verbatim>\<open>uint\<close>
  (taken at 64 bits) and \<^verbatim>\<open>time.Duration\<close> (an \<^verbatim>\<open>int64\<close> of nanoseconds) are
  64-bit words, so that every addition, subtraction and multiplication wraps as it does
  in Go.  A Go \<^verbatim>\<open>error\<close> is its message; a nullable pointer or error is an option.
\<close>

type_synonym int64 = "64 word"
type_synonym uint = "64 word"
type_synonym Duration = "64 word"
type_synonym float32 = "32 word"
type_synonym error = string

definition Second :: Duration where
  "Second = 1000000000"

text \<open>Go's \<^verbatim>\<open>/\<close> on \<^verbatim>\<open>int64\<close> truncates towards zero.\<close>

definition int64_quo :: "int64 \<Rightarrow> int64 \<Rightarrow> int64" where
  "int64_quo a b = word_of_int (sint a sdiv sint b)"

text \<open>
  \<^verbatim>\<open>test.Result\<close> and \<^verbatim>\<open>test.Test\<close> are declared in the \<^verbatim>\<open>test\<close> package; the
  records hold the fields the worker reads and writes.  \<^verbatim>\<open>Result.Hash\<close> and
  \<^verbatim>\<open>Test.Sanitize\<close> are methods of that package and enter the model as the parameters
  \<open>Hash\<close> and \<open>Sanitize\<close>.
\<close>

record Result =
  Input :: string
  Target :: string
  Time :: int64
  Type :: string
  Tag :: string
  Details :: "string option"
  Error :: "string option"
  IsDedup :: bool
  Recovered :: bool

record Test =
  Input :: string
  Target :: string
  Type :: string
  MaxRetries :: "uint option"
  DedupDuration :: "Duration option"
  MaxTargetsCount :: int64
  PeriodTestDuration :: "Duration option"
  PeriodTestSleep :: Duration
  PeriodTestThreshold :: "float32 option"

text \<open>
  The fields of \<^verbatim>\<open>workerCmd\<close> that the embedded methods read.  \<open>r_client\<close> says
  whether the handle \<^verbatim>\<open>p._r\<close> is non-nil.
\<close>

record workerCmd =
  IPv4 :: bool
  IPv6 :: bool
  Retry :: bool
  RetryCount :: uint
  DedupDuration :: Duration
  Tag :: string
  PeriodTestSleep :: Duration
  PeriodTestThreshold :: float32
  r_client :: bool

section \<open>The environment: Redis and the wall clock\<close>

text \<open>
  The Redis server holds the keys (each with the value and the expiry it was set with),
  the list \<^verbatim>\<open>overseer.results\<close> (the JSON encoding of a Result is kept as the Result
  itself) and the list \<^verbatim>\<open>overseer.jobs\<close>.  Whether the \<open>n\<close>-th command sent to the server
  fails is the oracle \<open>down\<close>; a failed command changes nothing.  The \<open>n\<close>-th reading of
  \<^verbatim>\<open>time.Now().Unix()\<close> is \<open>clock n\<close>.  \<open>invocations\<close> lists the targets the protocol
  handler has been invoked against, in the order of the invocations.
\<close>

record world =
  kv :: "string \<rightharpoonup> int64 \<times> Duration"
  results :: "Result list"
  jobs :: "string list"
  down :: "nat \<Rightarrow> bool"
  cmds :: nat
  clock :: "nat \<Rightarrow> int64"
  reads :: nat
  invocations :: "string list"

definition unixNow :: "world \<Rightarrow> int64 \<times> world" where
  "unixNow w = (clock w (reads w), w\<lparr>reads := Suc (reads w)\<rparr>)"

text \<open>Every command consumes one answer of the oracle.\<close>

definition sent :: "world \<Rightarrow> world" where
  "sent w = w\<lparr>cmds := Suc (cmds w)\<rparr>"

definition failing :: "world \<Rightarrow> bool" where
  "failing w = down w (cmds w)"

definition redisSet :: "string \<Rightarrow> int64 \<Rightarrow> Duration \<Rightarrow> world \<Rightarrow> error option \<times> world" where
  "redisSet key v expiry w =
     (if failing w then (Some ''redis: command failed'', sent w)
      else (None, sent (w\<lparr>kv := (kv w)(key \<mapsto> (v, expiry))\<rparr>)))"

definition redisGet :: "string \<Rightarrow> world \<Rightarrow> (error + int64) \<times> world" where
  "redisGet key w =
     (if failing w then (Inl ''redis: command failed'', sent w)
      else case kv w key of
             None \<Rightarrow> (Inl ''redis: nil'', sent w)
           | Some (v, expiry) \<Rightarrow> (Inr v, sent w))"

definition redisDel :: "string \<Rightarrow> world \<Rightarrow> error option \<times> world" where
  "redisDel key w =
     (if failing w then (Some ''redis: command failed'', sent w)
      else (None, sent (w\<lparr>kv := (kv w)(key := None)\<rparr>)))"

definition rpushResults :: "Result \<Rightarrow> world \<Rightarrow> error option \<times> world" where
  "rpushResults j w =
     (if failing w then (Some ''redis: command failed'', sent w)
      else (None, sent (w\<lparr>results := results w @ [j]\<rparr>)))"

definition rpushJobs :: "string \<Rightarrow> world \<Rightarrow> error option \<times> world" where
  "rpushJobs payload w =
     (if failing w then (Some ''redis: command failed'', sent w)
      else (None, sent (w\<lparr>jobs := jobs w @ [payload]\<rparr>)))"

section \<open>Deduplication keys\<close>

definition getDeduplicationCacheKey :: "string \<Rightarrow> string" where
  "getDeduplicationCacheKey hash = ''overseer.dedup-cache.'' @ hash"

definition getDeduplicationLastAlertKey :: "string \<Rightarrow> string" where
  "getDeduplicationLastAlertKey hash = ''overseer.dedup-last-alert.'' @ hash"

definition getDeduplicationCacheTime :: "workerCmd \<Rightarrow> string \<Rightarrow> world \<Rightarrow> int64 option \<times> world" where
  "getDeduplicationCacheTime p hash w =
     (if \<not> r_client p then (None, w)
      else case redisGet (getDeduplicationCacheKey hash) w of
             (Inl err, w') \<Rightarrow> (None, w')
           | (Inr cacheTime, w') \<Rightarrow> (Some cacheTime, w'))"

definition setDeduplicationCacheTime :: "workerCmd \<Rightarrow> string \<Rightarrow> Duration \<Rightarrow> world \<Rightarrow> world" where
  "setDeduplicationCacheTime p hash expiry w =
     (if \<not> r_client p then w
      else case unixNow w of
             (t, w') \<Rightarrow> snd (redisSet (getDeduplicationCacheKey hash) t expiry w'))"

definition clearDeduplicationCacheTime :: "workerCmd \<Rightarrow> string \<Rightarrow> world \<Rightarrow> world" where
  "clearDeduplicationCacheTime p hash w =
     (if \<not> r_client p then w
      else snd (redisDel (getDeduplicationCacheKey hash) w))"

definition getDeduplicationLastAlertTime :: "workerCmd \<Rightarrow> string \<Rightarrow> world \<Rightarrow> int64 option \<times> world" where
  "getDeduplicationLastAlertTime p hash w =
     (if \<not> r_client p then (None, w)
      else case redisGet (getDeduplicationLastAlertKey hash) w of
             (Inl err, w') \<Rightarrow> (None, w')
           | (Inr cacheTime, w') \<Rightarrow> (Some cacheTime, w'))"

definition setDeduplicationLastAlertTime :: "workerCmd \<Rightarrow> string \<Rightarrow> Duration \<Rightarrow> world \<Rightarrow> world" where
  "setDeduplicationLastAlertTime p hash expiry w =
     (if \<not> r_client p then w
      else case unixNow w of
             (t, w') \<Rightarrow> snd (redisSet (getDeduplicationLastAlertKey hash) t expiry w'))"

definition clearDeduplicationLastAlertTime :: "workerCmd \<Rightarrow> string \<Rightarrow> world \<Rightarrow> world" where
  "clearDeduplicationLastAlertTime p hash w =
     (if \<not> r_client p then w
      else snd (redisDel (getDeduplicationLastAlertKey hash) w))"

section \<open>notify\<close>

text \<open>
  \<^verbatim>\<open>notify\<close> builds the Result, applies the deduplication rule of the test and pushes
  the Result to \<^verbatim>\<open>overseer.results\<close>.  It returns the error it returns in Go together
  with the new state of the environment.  \<^verbatim>\<open>json.Marshal\<close> of a Result (strings, an
  integer and booleans) does not fail.
\<close>

definition newResult :: "workerCmd \<Rightarrow> Test \<Rightarrow> error option \<Rightarrow> string option \<Rightarrow> int64 \<Rightarrow> Result" where
  "newResult p testDefinition resultError details t =
     \<lparr>Result.Input = Test.Input testDefinition,
      Result.Target = Test.Target testDefinition,
      Result.Time = t,
      Result.Type = Test.Type testDefinition,
      Result.Tag = workerCmd.Tag p,
      Result.Details = details,
      Result.Error = resultError,
      Result.IsDedup = False,
      Result.Recovered = False\<rparr>"

definition notify ::
  "(Result \<Rightarrow> string) \<Rightarrow> workerCmd \<Rightarrow> Test \<Rightarrow> error option \<Rightarrow> string option \<Rightarrow> world
     \<Rightarrow> error option \<times> world" where
  "notify Hash p testDefinition resultError details w =
     (if \<not> r_client p then (None, w)
      else (case unixNow w of (t, w0) \<Rightarrow>
        (let testResult = newResult p testDefinition resultError details t in
         (case Test.DedupDuration testDefinition of
            None \<Rightarrow> rpushResults testResult w0
          | Some dedupDuration \<Rightarrow>
              (let hash = Hash testResult in
               if Result.Error testResult \<noteq> None then
                 (let w1 = setDeduplicationCacheTime p hash (dedupDuration * 10) w0 in
                  (case getDeduplicationLastAlertTime p hash w1 of
                     (Some lastAlertTime, w2) \<Rightarrow>
                       (case unixNow w2 of (now, w3) \<Rightarrow>
                          (let diffLastAlert = now - lastAlertTime;
                               dedupDurationSeconds = int64_quo dedupDuration Second
                           in if diffLastAlert <s dedupDurationSeconds then (None, w3)
                              else rpushResults (testResult\<lparr>Result.IsDedup := True\<rparr>)
                                     (setDeduplicationLastAlertTime p hash (dedupDuration * 10) w3)))
                   | (None, w2) \<Rightarrow>
                       rpushResults testResult
                         (setDeduplicationLastAlertTime p hash (dedupDuration * 10) w2)))
               else
                 (case getDeduplicationCacheTime p hash w0 of
                    (Some dedupCacheTime, w1) \<Rightarrow>
                      rpushResults (testResult\<lparr>Result.Recovered := True\<rparr>)
                        (clearDeduplicationLastAlertTime p hash
                           (clearDeduplicationCacheTime p hash w1))
                  | (None, w1) \<Rightarrow> rpushResults testResult w1))))))"

section \<open>The collaborators of runTest\<close>

text \<open>
  A protocol handler (\<^verbatim>\<open>protocols.ProtocolTest\<close>).  Its \<^verbatim>\<open>RunTest\<close> talks to the
  network: \<open>RunTest h tst target k\<close> is what an invocation against \<open>target\<close> returns when
  \<open>k\<close> invocations have been made before it, \<open>None\<close> for a passing test.
\<close>

record ProtocolTest =
  ShouldResolveHostname :: bool
  RunTest :: "Test \<Rightarrow> string \<Rightarrow> nat \<Rightarrow> error option"

text \<open>An invocation of the handler, recorded in the environment.\<close>

definition invoke :: "ProtocolTest \<Rightarrow> Test \<Rightarrow> string \<Rightarrow> world \<Rightarrow> error option \<times> world" where
  "invoke tmp tst target w =
     (RunTest tmp tst target (length (invocations w)),
      w\<lparr>invocations := invocations w @ [target]\<rparr>)"

text \<open>What the worker observes of a \<^verbatim>\<open>net.IP\<close>.\<close>

record IP =
  has_To4 :: bool
  has_To16 :: bool
  ip_String :: string

text \<open>
  The arithmetic of \<^verbatim>\<open>float32\<close> and the \<^verbatim>\<open>%.2f\<close> verb of \<^verbatim>\<open>fmt\<close>.  A
  \<^verbatim>\<open>float32\<close> is its 32-bit pattern; the operations on it are parameters of the model.
\<close>

record float32_ops =
  f32_of_uint :: "uint \<Rightarrow> float32"
  f32_quo :: "float32 \<Rightarrow> float32 \<Rightarrow> float32"
  f32_mul :: "float32 \<Rightarrow> float32 \<Rightarrow> float32"
  f32_gt :: "float32 \<Rightarrow> float32 \<Rightarrow> bool"
  f32_fmt2 :: "float32 \<Rightarrow> string"

text \<open>The bit pattern of the \<^verbatim>\<open>float32\<close> constant 100.\<close>

definition f32_100 :: float32 where
  "f32_100 = 0x42C80000"

text \<open>
  Everything \<^verbatim>\<open>runTest\<close> and \<^verbatim>\<open>workerLoop\<close> call outside this file, and what the
  scheduler of the goroutines decides:
  \<^item> \<open>Hash\<close>, \<open>Sanitize\<close>, \<open>ParseLine\<close> and \<open>ProtocolHandler\<close> of the packages
    \<^verbatim>\<open>test\<close>, \<^verbatim>\<open>parser\<close> and \<^verbatim>\<open>protocols\<close> (\<open>None\<close> is the nil handler);
  \<^item> \<open>LookupIP\<close> (\<^verbatim>\<open>net.LookupIP\<close>) and \<open>urlHostname\<close> (\<^verbatim>\<open>url.Parse\<close> followed by
    \<^verbatim>\<open>Hostname\<close>);
  \<^item> the wall clock of a period-test: \<open>periodIterations tst i\<close> is the number of times
    \<^verbatim>\<open>time.Now().Before(timeEnd)\<close> holds at the top of the loop of goroutine \<open>i\<close> before
    it fails, and \<open>iterationElapsed i n\<close> is the text of the duration that goroutine
    measures for its iteration \<open>n\<close>;
  \<^item> \<open>targetSeen i r\<close>: the iteration that the loop over the targets has reached when
    the goroutine started in iteration \<open>i\<close> reads the loop variable \<^verbatim>\<open>target\<close> for the
    \<open>r\<close>-th time as an argument of \<^verbatim>\<open>RunTest\<close> or \<^verbatim>\<open>testEndFn\<close> (its reads for the
    verbose messages are not counted);
  \<^item> \<open>concurrentMapWrites i\<close>: whether a write of goroutine \<open>i\<close> to the map
    \<^verbatim>\<open>metrics\<close> meets the write of another goroutine.
\<close>

record env =
  Hash :: "Result \<Rightarrow> string"
  Sanitize :: "Test \<Rightarrow> string"
  ParseLine :: "string \<Rightarrow> error + Test"
  ProtocolHandler :: "string \<Rightarrow> ProtocolTest option"
  LookupIP :: "string \<Rightarrow> error + IP list"
  urlHostname :: "string \<Rightarrow> error + string"
  f32 :: float32_ops
  periodIterations :: "Test \<Rightarrow> nat \<Rightarrow> nat"
  iterationElapsed :: "nat \<Rightarrow> nat \<Rightarrow> string"
  targetSeen :: "nat \<Rightarrow> nat \<Rightarrow> nat"
  concurrentMapWrites :: "nat \<Rightarrow> bool"

text \<open>
  A call either returns or brings the process down: by a panic, which nothing in the
  worker recovers, or by a fatal error of the Go runtime.
\<close>

datatype 'a exec = Returns 'a | Panics

section \<open>Strings\<close>

text \<open>The verb \<^verbatim>\<open>%d\<close> on a number that is not negative.\<close>

fun decimal :: "nat \<Rightarrow> string" where
  "decimal n =
     (if n < 10 then [''0123456789'' ! n]
      else decimal (n div 10) @ [''0123456789'' ! (n mod 10)])"

declare decimal.simps [simp del]

definition newline :: string where
  "newline = [CHR 0x0A]"

fun Join :: "string list \<Rightarrow> string \<Rightarrow> string" where
  "Join [] sep = []"
| "Join [x] sep = x"
| "Join (x # y # ys) sep = x @ sep @ Join (y # ys) sep"

definition Contains :: "string \<Rightarrow> string \<Rightarrow> bool" where
  "Contains s substr = sublist substr s"

section \<open>runTest\<close>

text \<open>The first statement of \<^verbatim>\<open>runTest\<close>: the worker's default deduplication.\<close>

definition defaultDedup :: "workerCmd \<Rightarrow> Test \<Rightarrow> Test" where
  "defaultDedup p tst =
     (if Test.DedupDuration tst = None \<and> Test.PeriodTestDuration tst = None
         \<and> 0 <s workerCmd.DedupDuration p
      then tst\<lparr>Test.DedupDuration := Some (workerCmd.DedupDuration p)\<rparr>
      else tst)"

text \<open>The targets kept from the resolved addresses.\<close>

fun ipTargets :: "workerCmd \<Rightarrow> IP list \<Rightarrow> string list" where
  "ipTargets p [] = []"
| "ipTargets p (ip # ips) =
     (if has_To4 ip \<and> IPv4 p then [ip_String ip] else []) @
     (if has_To16 ip \<and> \<not> has_To4 ip \<and> IPv6 p then [ip_String ip] else []) @
     ipTargets p ips"

definition limitTargets :: "Test \<Rightarrow> string list \<Rightarrow> string list" where
  "limitTargets tst targets =
     (if 0 <s MaxTargetsCount tst \<and> sint (MaxTargetsCount tst) < int (length targets)
      then take (nat (sint (MaxTargetsCount tst))) targets
      else targets)"

subsection \<open>The loop variable and the map shared by the goroutines\<close>

text \<open>
  \<^verbatim>\<open>for _, target := range targets { ... go func() { ... }() }\<close> starts one goroutine
  in each iteration, and the function literal refers to the loop variable \<^verbatim>\<open>target\<close>,
  not to a copy of it.  The loop has one such variable (Go before 1.22), so a goroutine
  reads whatever the loop has assigned by then: the target of its own iteration or that
  of a later one, never one past the last.  (With a variable of its own in each
  iteration, as from Go 1.22, \<open>targetSeen i r\<close> is \<open>i\<close>.)
\<close>

definition targetRead :: "env \<Rightarrow> string list \<Rightarrow> nat \<Rightarrow> nat \<Rightarrow> string" where
  "targetRead E targets i r = targets ! min (max i (targetSeen E i r)) (length targets - 1)"

text \<open>
  \<^verbatim>\<open>testEndFn\<close>, called by goroutine \<open>i\<close> of \<open>n\<close>.  It first writes two entries of the
  map \<^verbatim>\<open>metrics\<close>, which the goroutines of one test share without a lock: when the
  write meets that of another goroutine, the Go runtime ends the process (concurrent map
  writes are a fatal error).  A single goroutine has nobody to meet.  Then it notifies
  with a copy of the test.  The entries of the map and their submission to graphite are
  left out: they never reach Redis.
\<close>

definition testEndFn ::
  "env \<Rightarrow> workerCmd \<Rightarrow> Test \<Rightarrow> nat \<Rightarrow> nat \<Rightarrow> string \<Rightarrow> error option \<Rightarrow> string option \<Rightarrow> world
     \<Rightarrow> unit exec \<times> world" where
  "testEndFn E p tst n i target result details w =
     (if 1 < n \<and> concurrentMapWrites E i then (Panics, w)
      else
        (let tstCopy = tst\<lparr>Test.Target := target\<rparr>;
             tstCopy = tstCopy\<lparr>Test.Input := Sanitize E tst\<rparr>
         in (Returns (), snd (notify (Hash E) p tstCopy result details w))))"

subsection \<open>The period-test of one goroutine\<close>

text \<open>
  The loop of a period-test in goroutine \<open>i\<close>, from iteration \<open>iteration + 1\<close> on, for
  the \<open>n\<close> iterations the clock still admits.  Each invocation reads the loop variable
  anew.  It returns \<open>countSuccess\<close>, \<open>countFail\<close> and \<open>errorStrings\<close>.
\<close>

fun periodLoop ::
  "env \<Rightarrow> ProtocolTest \<Rightarrow> Test \<Rightarrow> string list \<Rightarrow> nat \<Rightarrow> nat \<Rightarrow> nat \<Rightarrow> uint \<Rightarrow> uint
     \<Rightarrow> string list \<Rightarrow> world \<Rightarrow> uint \<times> uint \<times> string list \<times> world" where
  "periodLoop E tmp tst targets i 0 iteration countSuccess countFail errorStrings w =
     (countSuccess, countFail, errorStrings, w)"
| "periodLoop E tmp tst targets i (Suc n) iteration countSuccess countFail errorStrings w =
     (case invoke tmp tst (targetRead E targets i iteration) w of
        (Some err, w') \<Rightarrow>
          periodLoop E tmp tst targets i n (Suc iteration) countSuccess (countFail + 1)
            (errorStrings @
               [''test '' @ decimal (Suc iteration) @ '' failed, took ''
                  @ iterationElapsed E i iteration @ '': '' @ err]) w'
      | (None, w') \<Rightarrow>
          periodLoop E tmp tst targets i n (Suc iteration) (countSuccess + 1) countFail
            errorStrings w')"

text \<open>What the period-test hands to \<^verbatim>\<open>testEndFn\<close>: the result and the details.\<close>

definition periodResult ::
  "env \<Rightarrow> workerCmd \<Rightarrow> ProtocolTest \<Rightarrow> Test \<Rightarrow> string list \<Rightarrow> nat \<Rightarrow> world
     \<Rightarrow> error option \<times> string option \<times> world" where
  "periodResult E p tmp tst targets i w =
     (let periodTestThreshold =
            (case Test.PeriodTestThreshold tst of
               Some th \<Rightarrow> th
             | None \<Rightarrow> workerCmd.PeriodTestThreshold p)
      in case periodLoop E tmp tst targets i (periodIterations E tst i) 0 0 0 [] w of
           (countSuccess, countFail, errorStrings, w') \<Rightarrow>
             (let totalAttempts = countFail + countSuccess;
                  errPercentage =
                    f32_quo (f32 E) (f32_of_uint (f32 E) countFail)
                      (f32_of_uint (f32 E) totalAttempts);
                  failuresString =
                    (if 0 < length errorStrings
                     then Some (''Period-test errors:'' @ newline
                                  @ Join (map (\<lambda>errorString. ''- '' @ errorString) errorStrings) newline)
                     else None);
                  result =
                    (if f32_gt (f32 E) errPercentage periodTestThreshold
                     then Some (decimal (unat countFail) @ '' tests failed out of ''
                                  @ decimal (unat totalAttempts) @ '' (''
                                  @ f32_fmt2 (f32 E) (f32_mul (f32 E) errPercentage f32_100)
                                  @ ''%)'')
                     else None)
              in (result, failuresString, w')))"

subsection \<open>The retries of one goroutine\<close>

text \<open>
  \<^verbatim>\<open>maxAttempts\<close> as \<^verbatim>\<open>runTest\<close> computes it.
\<close>

definition maxAttemptsOf :: "workerCmd \<Rightarrow> Test \<Rightarrow> uint" where
  "maxAttemptsOf p tst =
     (let attempt = 0 :: uint;
          maxAttempts = RetryCount p;
          maxAttempts = (if \<not> Retry p then attempt + 1 else maxAttempts)
      in case MaxRetries tst of
           Some maxRetries \<Rightarrow> maxRetries + 1
         | None \<Rightarrow> maxAttempts)"

text \<open>
  The loop \<^verbatim>\<open>for attempt < maxAttempts\<close> in goroutine \<open>i\<close>.  \<open>c\<close> is the counter of the
  source and \<open>r\<close> the number of times the goroutine has read the loop variable
  \<^verbatim>\<open>target\<close>.  The loop leaves through \<^verbatim>\<open>attempt = maxAttempts + 1\<close>, which wraps to 0
  when \<open>maxAttempts\<close> is the largest \<^verbatim>\<open>uint\<close>: the loop then goes on, and \<open>None\<close> is the
  run that never ends.
\<close>

partial_function (option) retryLoop ::
  "env \<Rightarrow> ProtocolTest \<Rightarrow> Test \<Rightarrow> string list \<Rightarrow> nat \<Rightarrow> uint \<Rightarrow> uint \<Rightarrow> uint \<Rightarrow> nat
     \<Rightarrow> error option \<Rightarrow> world \<Rightarrow> (uint \<times> nat \<times> error option \<times> world) option" where
  "retryLoop E tmp tst targets i maxAttempts attempt c r result w =
     (if attempt < maxAttempts then
        (case invoke tmp tst (targetRead E targets i r) w of
           (None, w') \<Rightarrow>
             retryLoop E tmp tst targets i maxAttempts (maxAttempts + 1) (c + 1) (Suc r) None w'
         | (Some err, w') \<Rightarrow>
             retryLoop E tmp tst targets i maxAttempts (attempt + 1) (c + 1) (Suc r) (Some err) w')
      else Some (c, r, result, w))"

subsection \<open>One goroutine, all goroutines, the whole test\<close>

text \<open>
  The body of the goroutine started in iteration \<open>i\<close> of the loop over \<open>targets\<close>;
  \<open>None\<close> when it does not return.  The call of \<^verbatim>\<open>testEndFn\<close> reads the loop variable
  once more.
\<close>

definition goroutine ::
  "env \<Rightarrow> workerCmd \<Rightarrow> ProtocolTest \<Rightarrow> Test \<Rightarrow> string list \<Rightarrow> nat \<Rightarrow> world
     \<Rightarrow> (unit exec \<times> world) option" where
  "goroutine E p tmp tst targets i w =
     (if Test.PeriodTestDuration tst \<noteq> None then
        (case periodResult E p tmp tst targets i w of
           (result, failuresString, w') \<Rightarrow>
             Some (testEndFn E p tst (length targets) i
                     (targetRead E targets i (periodIterations E tst i)) result failuresString w'))
      else
        (case retryLoop E tmp tst targets i (maxAttemptsOf p tst) 0 0 0 None w of
           None \<Rightarrow> None
         | Some (c, r, result, w') \<Rightarrow>
             Some (testEndFn E p tst (length targets) i (targetRead E targets i r) result None w')))"

text \<open>
  The goroutines run concurrently in the source.  Here they are served one after the
  other, in the order of their start: the invocations and the Redis commands of two
  goroutines do not interleave in the model.  What the scheduler decides about the loop
  variable and the map is in \<open>targetSeen\<close> and \<open>concurrentMapWrites\<close>.  When a goroutine
  brings the process down, those after it are not served.
\<close>

fun runGoroutines ::
  "env \<Rightarrow> workerCmd \<Rightarrow> ProtocolTest \<Rightarrow> Test \<Rightarrow> string list \<Rightarrow> nat list \<Rightarrow> world
     \<Rightarrow> (unit exec \<times> world) option" where
  "runGoroutines E p tmp tst targets [] w = Some (Returns (), w)"
| "runGoroutines E p tmp tst targets (i # is) w =
     (case goroutine E p tmp tst targets i w of
        None \<Rightarrow> None
      | Some (Panics, w') \<Rightarrow> Some (Panics, w')
      | Some (Returns u, w') \<Rightarrow> runGoroutines E p tmp tst targets is w')"

text \<open>
  The loop over the targets and \<^verbatim>\<open>wg.Wait()\<close>.
\<close>

definition runTargets ::
  "env \<Rightarrow> workerCmd \<Rightarrow> ProtocolTest \<Rightarrow> Test \<Rightarrow> string list \<Rightarrow> world
     \<Rightarrow> (error option exec \<times> world) option" where
  "runTargets E p tmp tst targets w =
     (case runGoroutines E p tmp tst targets [0..<length targets] w of
        None \<Rightarrow> None
      | Some (Panics, w') \<Rightarrow> Some (Panics, w')
      | Some (Returns u, w') \<Rightarrow> Some (Returns None, w'))"

definition runTest :: "env \<Rightarrow> workerCmd \<Rightarrow> Test \<Rightarrow> world \<Rightarrow> (error option exec \<times> world) option" where
  "runTest E p tst0 w =
     (let tst = defaultDedup p tst0;
          testType = Test.Type tst;
          testTarget = Test.Target tst
      in case ProtocolHandler E testType of
           None \<Rightarrow> Some (Panics, w)
         | Some tmp \<Rightarrow>
             if ShouldResolveHostname tmp then
               (case (if Contains testTarget ''://'' then urlHostname E testTarget
                      else Inr testTarget) of
                  Inl err \<Rightarrow> Some (Returns (Some err), w)
                | Inr testTarget \<Rightarrow>
                    (case LookupIP E testTarget of
                       Inl err \<Rightarrow>
                         (let tst = tst\<lparr>Test.Input := Sanitize E tst\<rparr>
                          in case notify (Hash E) p tst
                                    (Some (''failed to resolve name '' @ testTarget)) None w of
                               (nerr, w') \<Rightarrow> Some (Returns (Some err), w'))
                     | Inr ips \<Rightarrow>
                         runTargets E p tmp tst (limitTargets tst (ipTargets p ips)) w))
             else runTargets E p tmp tst (limitTargets tst [testTarget]) w)"

section \<open>workerLoop\<close>

text \<open>Indexing a slice panics out of range.\<close>

definition index :: "'a list \<Rightarrow> nat \<Rightarrow> 'a exec" where
  "index xs i = (if i < length xs then Returns (xs ! i) else Panics)"

text \<open>
  \<^verbatim>\<open>BLPop(0, "overseer.jobs")\<close> waits for an element without a timeout: \<open>None\<close> is
  the call that never returns (nothing is pushed while it waits).  Its error is dropped
  by the source, which then holds a nil slice.
\<close>

definition blpopJobs :: "world \<Rightarrow> (string list \<times> world) option" where
  "blpopJobs w =
     (if failing w then Some ([], sent w)
      else case jobs w of
             [] \<Rightarrow> None
           | j # js \<Rightarrow> Some ([''overseer.jobs'', j], sent (w\<lparr>jobs := js\<rparr>)))"

text \<open>
  One turn of the goroutine that fetches jobs.  \<open>exit\<close> is the flag set by the shutdown
  signal; the turn reads it before the pop (\<open>exit1\<close>) and after it (\<open>exit2\<close>).
\<close>

datatype fetched = Exited | Delivered "string list"

definition afterPop :: "bool \<Rightarrow> string list \<Rightarrow> world \<Rightarrow> fetched exec \<times> world" where
  "afterPop exit2 testObject w =
     (if exit2 then
        (if 1 \<le> length testObject then
           (case index testObject 1 of
              Panics \<Rightarrow> (Panics, w)
            | Returns payload \<Rightarrow>
                (case rpushJobs payload w of (err, w') \<Rightarrow> (Returns Exited, w')))
         else (Returns Exited, w))
      else (Returns (Delivered testObject), w))"

definition fetchJob :: "bool \<Rightarrow> bool \<Rightarrow> world \<Rightarrow> (fetched exec \<times> world) option" where
  "fetchJob exit1 exit2 w =
     (if exit1 then Some (Returns Exited, w)
      else case blpopJobs w of
             None \<Rightarrow> None
           | Some (testObject, w') \<Rightarrow> Some (afterPop exit2 testObject w'))"

text \<open>The body of the loop over \<^verbatim>\<open>testObjectChan\<close>: parse the job and run it.\<close>

definition handleJob :: "env \<Rightarrow> workerCmd \<Rightarrow> string list \<Rightarrow> world \<Rightarrow> (unit exec \<times> world) option" where
  "handleJob E p testObject w =
     (if 1 \<le> length testObject then
        (case index testObject 1 of
           Panics \<Rightarrow> Some (Panics, w)
         | Returns line \<Rightarrow>
             (case ParseLine E line of
                Inr job \<Rightarrow>
                  (case runTest E p job w of
                     None \<Rightarrow> None
                   | Some (Panics, w') \<Rightarrow> Some (Panics, w')
                   | Some (Returns err, w') \<Rightarrow> Some (Returns (), w'))
              | Inl err \<Rightarrow> Some (Returns (), w)))
      else Some (Returns (), w))"

subsection \<open>The goroutines of one slot\<close>

text \<open>
  \<^verbatim>\<open>workerLoop\<close> runs three goroutines: the one that waits for the shutdown signal, the
  one that fetches jobs, and the loop over \<^verbatim>\<open>testObjectChan\<close> in \<^verbatim>\<open>workerLoop\<close>
  itself.  Nothing waits for the first two: \<^verbatim>\<open>workerLoop\<close> returns when its loop ends,
  and \<^verbatim>\<open>Execute\<close> waits for the \<^verbatim>\<open>workerLoop\<close> of every slot only.  Each goroutine
  is a program counter; a step is what one goroutine does between two points where
  another can run.
\<close>

datatype watcher_pc =
    S_wait \<comment> \<open>in \<^verbatim>\<open>shouldExit.Wait()\<close>\<close>
  | S_exit_set \<comment> \<open>holds \<^verbatim>\<open>exitLock\<close>, has set \<^verbatim>\<open>exit\<close>\<close>
  | S_closed1 \<comment> \<open>has closed \<^verbatim>\<open>testObjectChan\<close>\<close>
  | S_done \<comment> \<open>has closed \<^verbatim>\<open>workerAvailableChan\<close> and released the lock\<close>

datatype fetcher_pc =
    F_wait \<comment> \<open>at \<^verbatim>\<open><-workerAvailableChan\<close>\<close>
  | F_check1 \<comment> \<open>before the first look at \<^verbatim>\<open>exit\<close>\<close>
  | F_pop \<comment> \<open>at \<^verbatim>\<open>BLPop\<close>\<close>
  | F_check2 "string list" \<comment> \<open>holds \<^verbatim>\<open>testObject\<close>, before the second look at \<^verbatim>\<open>exit\<close>\<close>
  | F_requeue "string list" \<comment> \<open>has seen \<^verbatim>\<open>exit\<close> set, before the requeue\<close>
  | F_send "string list" \<comment> \<open>at \<^verbatim>\<open>testObjectChan <- testObject\<close>\<close>
  | F_returned
  | F_panicked

datatype main_pc =
    M_offer \<comment> \<open>at \<^verbatim>\<open>workerAvailableChan <- true\<close>\<close>
  | M_range \<comment> \<open>at \<^verbatim>\<open>range testObjectChan\<close>\<close>
  | M_handle "string list" \<comment> \<open>has received \<^verbatim>\<open>testObject\<close>\<close>
  | M_check \<comment> \<open>before its look at \<^verbatim>\<open>exit\<close>\<close>
  | M_returned \<comment> \<open>\<^verbatim>\<open>workerLoop\<close> has returned: the slot has exited\<close>
  | M_panicked

record slot =
  exit :: bool
  testObjectChanClosed :: bool
  workerAvailableChanClosed :: bool
  watcher :: watcher_pc
  fetcher :: fetcher_pc
  mainLoop :: main_pc
  store :: world

definition slotStart :: "world \<Rightarrow> slot" where
  "slotStart w =
     \<lparr>exit = False, testObjectChanClosed = False, workerAvailableChanClosed = False,
      watcher = S_wait, fetcher = F_wait, mainLoop = M_offer, store = w\<rparr>"

text \<open>The watcher holds \<^verbatim>\<open>exitLock\<close> from setting \<^verbatim>\<open>exit\<close> to its return.\<close>

definition exitLockFree :: "slot \<Rightarrow> bool" where
  "exitLockFree s = (watcher s = S_wait \<or> watcher s = S_done)"

inductive step :: "env \<Rightarrow> workerCmd \<Rightarrow> slot \<Rightarrow> slot \<Rightarrow> bool" for E p where
  signal:
    "watcher s = S_wait \<Longrightarrow> step E p s (s\<lparr>exit := True, watcher := S_exit_set\<rparr>)"
| close_testObjectChan:
    "watcher s = S_exit_set \<Longrightarrow>
     step E p s (s\<lparr>testObjectChanClosed := True, watcher := S_closed1\<rparr>)"
| close_workerAvailableChan:
    "watcher s = S_closed1 \<Longrightarrow>
     step E p s (s\<lparr>workerAvailableChanClosed := True, watcher := S_done\<rparr>)"
| available:
    "mainLoop s = M_offer \<Longrightarrow> fetcher s = F_wait \<Longrightarrow> \<not> workerAvailableChanClosed s \<Longrightarrow>
     step E p s (s\<lparr>mainLoop := M_range, fetcher := F_check1\<rparr>)"
| available_send_closed:
    "mainLoop s = M_offer \<Longrightarrow> workerAvailableChanClosed s \<Longrightarrow>
     step E p s (s\<lparr>mainLoop := M_panicked\<rparr>)"
| available_receive_closed:
    "fetcher s = F_wait \<Longrightarrow> workerAvailableChanClosed s \<Longrightarrow>
     step E p s (s\<lparr>fetcher := F_returned\<rparr>)"
| first_check:
    "fetcher s = F_check1 \<Longrightarrow> exitLockFree s \<Longrightarrow>
     step E p s (s\<lparr>fetcher := (if exit s then F_returned else F_pop)\<rparr>)"
| pop:
    "fetcher s = F_pop \<Longrightarrow> blpopJobs (store s) = Some (testObject, w') \<Longrightarrow>
     step E p s (s\<lparr>fetcher := F_check2 testObject, store := w'\<rparr>)"
| second_check:
    "fetcher s = F_check2 testObject \<Longrightarrow> exitLockFree s \<Longrightarrow>
     step E p s (s\<lparr>fetcher := (if exit s then F_requeue testObject else F_send testObject)\<rparr>)"
| requeue:
    "fetcher s = F_requeue testObject \<Longrightarrow> afterPop True testObject (store s) = (x, w') \<Longrightarrow>
     step E p s
       (s\<lparr>fetcher := (case x of Panics \<Rightarrow> F_panicked | Returns y \<Rightarrow> F_returned), store := w'\<rparr>)"
| deliver:
    "fetcher s = F_send testObject \<Longrightarrow> mainLoop s = M_range \<Longrightarrow> \<not> testObjectChanClosed s \<Longrightarrow>
     step E p s (s\<lparr>fetcher := F_wait, mainLoop := M_handle testObject\<rparr>)"
| deliver_send_closed:
    "fetcher s = F_send testObject \<Longrightarrow> testObjectChanClosed s \<Longrightarrow>
     step E p s (s\<lparr>fetcher := F_panicked\<rparr>)"
| range_closed:
    "mainLoop s = M_range \<Longrightarrow> testObjectChanClosed s \<Longrightarrow>
     step E p s (s\<lparr>mainLoop := M_returned\<rparr>)"
| handle:
    "mainLoop s = M_handle testObject \<Longrightarrow> handleJob E p testObject (store s) = Some (x, w') \<Longrightarrow>
     step E p s
       (s\<lparr>mainLoop := (case x of Panics \<Rightarrow> M_panicked | Returns y \<Rightarrow> M_check), store := w'\<rparr>)"
| last_check:
    "mainLoop s = M_check \<Longrightarrow> exitLockFree s \<Longrightarrow>
     step E p s (s\<lparr>mainLoop := (if exit s then M_returned else M_offer)\<rparr>)"

section \<open>Sample inputs\<close>

text \<open>Concrete inputs, on which the properties below are exercised.\<close>

definition sample_worker :: workerCmd where
  "sample_worker =
     \<lparr>IPv4 = True, IPv6 = True, Retry = True, RetryCount = 5, workerCmd.DedupDuration = 0,
      workerCmd.Tag = ''t1'', workerCmd.PeriodTestSleep = 5000000000,
      workerCmd.PeriodTestThreshold = 0, r_client = True\<rparr>"

definition sample_test :: Test where
  "sample_test =
     \<lparr>Test.Input = ''example.com must run ssh with dedup 5m'', Test.Target = ''192.0.2.1'',
      Test.Type = ''ssh'', MaxRetries = None, Test.DedupDuration = Some 300000000000,
      MaxTargetsCount = 0, PeriodTestDuration = None, Test.PeriodTestSleep = 0,
      Test.PeriodTestThreshold = None\<rparr>"

text \<open>A test on a name that does not resolve.\<close>

definition unresolved_test :: Test where
  "unresolved_test =
     sample_test\<lparr>Test.Input := ''does.not.exist must run http with dedup 5m'',
       Test.Target := ''does.not.exist'', Test.Type := ''http''\<rparr>"

text \<open>A test without a deduplication rule, and the same as a period-test.\<close>

definition plain_test :: Test where
  "plain_test =
     sample_test\<lparr>Test.Input := ''192.0.2.1 must run ping'', Test.Type := ''ping'',
       Test.DedupDuration := None\<rparr>"

definition period_test :: Test where
  "period_test = plain_test\<lparr>PeriodTestDuration := Some 5000000000\<rparr>"

text \<open>A worker started with \<^verbatim>\<open>-dedup 5m\<close>.\<close>

definition dedup_worker :: workerCmd where
  "dedup_worker = sample_worker\<lparr>workerCmd.DedupDuration := 300000000000\<rparr>"

definition sample_hash :: "Result \<Rightarrow> string" where
  "sample_hash r = ''h1''"

text \<open>
  A Redis server that answers every command, a clock that stands still, and no
  invocation of a handler so far.
\<close>

definition sample_world :: "(string \<times> int64 \<times> Duration) list \<Rightarrow> int64 \<Rightarrow> world" where
  "sample_world keys now =
     \<lparr>kv = map_of keys, results = [], jobs = [], down = (\<lambda>n. False), cmds = 0,
      clock = (\<lambda>n. now), reads = 0, invocations = []\<rparr>"

definition failing_handler :: ProtocolTest where
  "failing_handler =
     \<lparr>ShouldResolveHostname = False, RunTest = (\<lambda>tst target k. Some ''timeout'')\<rparr>"

definition flaky_handler :: ProtocolTest where
  "flaky_handler =
     \<lparr>ShouldResolveHostname = False,
      RunTest = (\<lambda>tst target k. if k < 2 then Some ''timeout'' else None)\<rparr>"

definition resolving_handler :: ProtocolTest where
  "resolving_handler =
     \<lparr>ShouldResolveHostname = True, RunTest = (\<lambda>tst target k. None)\<rparr>"

text \<open>
  A table of \<^verbatim>\<open>float32\<close> arithmetic that is right on the values the examples meet:
  0, 1 and 100, and the quotient 0/0.
\<close>

definition sample_f32 :: float32_ops where
  "sample_f32 =
     \<lparr>f32_of_uint = (\<lambda>u. if u = 1 then 0x3F800000 else 0),
      f32_quo = (\<lambda>x y. if y = 0x3F800000 then x else 0x7FC00000),
      f32_mul = (\<lambda>x y. if x = 0x3F800000 then y else 0),
      f32_gt = (\<lambda>x y. x = 0x3F800000 \<and> y = 0),
      f32_fmt2 = (\<lambda>x. if x = 0x42C80000 then ''100.00'' else ''0.00'')\<rparr>"

text \<open>
  An environment in which every line parses to \<open>job\<close>, every protocol has the handler
  \<open>handler\<close>, no name resolves, a period-test gets one iteration, every goroutine reads
  the target of its own iteration and no two writes to the map meet.
\<close>

definition sample_env :: "ProtocolTest \<Rightarrow> Test \<Rightarrow> env" where
  "sample_env handler job =
     \<lparr>Hash = sample_hash, Sanitize = Test.Input, ParseLine = (\<lambda>line. Inr job),
      ProtocolHandler = (\<lambda>testType. Some handler),
      LookupIP = (\<lambda>host. Inl ''lookup: no such host''),
      urlHostname = (\<lambda>rawurl. Inr rawurl), f32 = sample_f32,
      periodIterations = (\<lambda>tst i. 1),
      iterationElapsed = (\<lambda>i n. ''1.00ms''),
      targetSeen = (\<lambda>i r. i),
      concurrentMapWrites = (\<lambda>i. False)\<rparr>"

text \<open>
  An environment in which the name resolves to two addresses and the loop over the
  targets has ended before any goroutine reads the loop variable.
\<close>

definition two_addresses :: "IP list" where
  "two_addresses =
     [\<lparr>has_To4 = True, has_To16 = True, ip_String = ''192.0.2.1''\<rparr>,
      \<lparr>has_To4 = False, has_To16 = True, ip_String = ''2001:db8::1''\<rparr>]"

definition late_env :: "ProtocolTest \<Rightarrow> Test \<Rightarrow> env" where
  "late_env handler job =
     (sample_env handler job)
       \<lparr>LookupIP := (\<lambda>host. Inr two_addresses), targetSeen := (\<lambda>i r. 1)\<rparr>"

text \<open>
  An environment in which the name resolves to two addresses and the goroutines write
  to the map of the metrics at the same time.
\<close>

definition clash_env :: "ProtocolTest \<Rightarrow> Test \<Rightarrow> env" where
  "clash_env handler job =
     (sample_env handler job)
       \<lparr>LookupIP := (\<lambda>host. Inr two_addresses), concurrentMapWrites := (\<lambda>i. True)\<rparr>"

text \<open>A period-test on a name.\<close>

definition host_period_test :: Test where
  "host_period_test =
     period_test\<lparr>Test.Input := ''example.com must run http'', Test.Target := ''example.com'',
       Test.Type := ''http''\<rparr>"

text \<open>A job in the queue, as the string that \<^verbatim>\<open>enqueue\<close> pushes.\<close>

definition sample_job :: string where
  "sample_job = ''192.0.2.1 must run ping''"

section \<open>Properties\<close>

text \<open>The two invariants of a Result.\<close>

definition result_inv :: "Result \<Rightarrow> bool" where
  "result_inv r =
     ((Recovered r \<longrightarrow> Result.Error r = None) \<and> (IsDedup r \<longrightarrow> Result.Error r \<noteq> None))"

text \<open>The Results pushed to \<^verbatim>\<open>overseer.results\<close> between two states.\<close>

definition published :: "world \<Rightarrow> world \<Rightarrow> Result list" where
  "published w w' = drop (length (results w)) (results w')"

text \<open>The targets the handler has been invoked against between two states.\<close>

definition probes :: "world \<Rightarrow> world \<Rightarrow> string list" where
  "probes w w' = drop (length (invocations w)) (invocations w')"

text \<open>The second state differs from the first by invocations of the handler only.\<close>

definition only_invokes :: "world \<Rightarrow> world \<Rightarrow> bool" where
  "only_invokes w w' = (w' = w\<lparr>invocations := invocations w @ probes w w'\<rparr>)"

definition extends_ok :: "world \<Rightarrow> world \<Rightarrow> bool" where
  "extends_ok w w' =
     (results w' = results w @ published w w' \<and> list_all result_inv (published w w'))"


lemma keys_distinct [simp]:
  "getDeduplicationCacheKey h \<noteq> getDeduplicationLastAlertKey h'"
  "getDeduplicationLastAlertKey h' \<noteq> getDeduplicationCacheKey h"
  by (simp_all add: getDeduplicationCacheKey_def getDeduplicationLastAlertKey_def)

lemmas redis_defs = unixNow_def sent_def failing_def redisSet_def redisGet_def redisDel_def
  rpushResults_def rpushJobs_def
  getDeduplicationCacheTime_def setDeduplicationCacheTime_def clearDeduplicationCacheTime_def
  getDeduplicationLastAlertTime_def setDeduplicationLastAlertTime_def
  clearDeduplicationLastAlertTime_def

lemmas sample_defs = sample_worker_def sample_test_def sample_hash_def sample_world_def
  getDeduplicationCacheKey_def getDeduplicationLastAlertKey_def

subsection \<open>Deduplication in notify\<close>

text \<open>
  Claim C1, as the code has it.  A failing test with a deduplication rule and a stored
  last-alert time, on a Redis server that answers: the age of the last alert is the
  difference of two Unix times in whole seconds, and it is compared with the
  deduplication window truncated to whole seconds (\<open>int64_quo d Second\<close>).  When the age
  is strictly less, nothing is pushed and only the cache-time key is written; otherwise
  one Result with \<open>IsDedup\<close> set is pushed and both keys are written.  Every key is
  written with the expiry \<open>d * 10\<close>, the product taken in \<^verbatim>\<open>int64\<close>.
\<close>

theorem notify_failure_with_last_alert:
  assumes "r_client p" and "Test.DedupDuration t = Some d" and "\<forall>n. \<not> down w n"
    and "kv w (getDeduplicationLastAlertKey (H (newResult p t (Some e) details (clock w (reads w)))))
           = Some (lastAlertTime, ttl)"
  shows "let r = newResult p t (Some e) details (clock w (reads w));
             cacheKey = getDeduplicationCacheKey (H r);
             lastAlertKey = getDeduplicationLastAlertKey (H r);
             w' = snd (notify H p t (Some e) details w)
         in if clock w (reads w + 2) - lastAlertTime <s int64_quo d Second
            then results w' = results w
               \<and> kv w' = (kv w)(cacheKey \<mapsto> (clock w (reads w + 1), d * 10))
            else results w' = results w @ [r\<lparr>IsDedup := True\<rparr>]
               \<and> kv w' = (kv w)(cacheKey \<mapsto> (clock w (reads w + 1), d * 10),
                                 lastAlertKey \<mapsto> (clock w (reads w + 3), d * 10))"
  using assms
  by (simp add: notify_def redis_defs Let_def newResult_def numeral_3_eq_3)

text \<open>
  A window of five minutes and a last alert at second 1000: the failure at second 1060 is
  suppressed, the failure at second 1300 is pushed as a duplicate.
\<close>

theorem notify_failure_with_last_alert_witness:
  "r_client sample_worker \<and> Test.DedupDuration sample_test = Some 300000000000
   \<and> results (snd (notify sample_hash sample_worker sample_test (Some ''timeout'') None
         (sample_world [(''overseer.dedup-last-alert.h1'', 1000, 3000000000000)] 1060))) = []
   \<and> results (snd (notify sample_hash sample_worker sample_test (Some ''timeout'') None
         (sample_world [(''overseer.dedup-last-alert.h1'', 1000, 3000000000000)] 1300)))
       = [(newResult sample_worker sample_test (Some ''timeout'') None 1300)\<lparr>IsDedup := True\<rparr>]"
  using notify_failure_with_last_alert [of sample_worker sample_test 300000000000
      "sample_world [(''overseer.dedup-last-alert.h1'', 1000, 3000000000000)] 1060"
      sample_hash "''timeout''" None 1000 3000000000000]
    notify_failure_with_last_alert [of sample_worker sample_test 300000000000
      "sample_world [(''overseer.dedup-last-alert.h1'', 1000, 3000000000000)] 1300"
      sample_hash "''timeout''" None 1000 3000000000000]
  by (simp add: sample_defs Let_def int64_quo_def Second_def signed_divide_int_def word_sless_alt)

text \<open>
  Claim C1 as the specification words it compares the age with the window itself.  A
  window of 1.5 seconds and a last alert one second ago: the age is strictly less than
  the window, and the Result is pushed all the same, marked as a duplicate.
\<close>

theorem notify_window_counterexample:
  "sint ((1001 :: int64) - 1000) * 1000000000 < sint (1500000000 :: Duration)
   \<and> results (snd (notify sample_hash sample_worker
         (sample_test\<lparr>Test.DedupDuration := Some 1500000000\<rparr>) (Some ''timeout'') None
         (sample_world [(''overseer.dedup-last-alert.h1'', 1000, 15000000000)] 1001)))
       = [(newResult sample_worker (sample_test\<lparr>Test.DedupDuration := Some 1500000000\<rparr>)
             (Some ''timeout'') None 1001)\<lparr>IsDedup := True\<rparr>]"
  by (simp add: notify_def redis_defs sample_defs Let_def newResult_def int64_quo_def Second_def
        signed_divide_int_def word_sless_alt)

text \<open>
  Claim C3, as the code has it.  A passing test with a deduplication rule and no
  cache-time key, on a Redis server that answers: the Result of the success is pushed
  (with neither flag set) and no key is touched.
\<close>

theorem notify_first_success:
  assumes "r_client p" and "Test.DedupDuration t = Some d" and "\<forall>n. \<not> down w n"
    and "kv w (getDeduplicationCacheKey (H (newResult p t None details (clock w (reads w))))) = None"
  shows "results (snd (notify H p t None details w))
           = results w @ [newResult p t None details (clock w (reads w))]
       \<and> kv (snd (notify H p t None details w)) = kv w"
  using assms
  by (simp add: notify_def redis_defs Let_def newResult_def)

theorem notify_first_success_witness:
  "r_client sample_worker \<and> Test.DedupDuration sample_test = Some 300000000000
   \<and> results (snd (notify sample_hash sample_worker sample_test None None (sample_world [] 1060)))
       = [newResult sample_worker sample_test None None 1060]"
  using notify_first_success [of sample_worker sample_test 300000000000 "sample_world [] 1060"
      sample_hash None]
  by (simp add: sample_defs)

text \<open>
  Claim C3 as the specification words it: with deduplication enabled and no cache-time
  key, the success would not reach the result queue.  It does.
\<close>

theorem notify_first_success_counterexample:
  "Test.DedupDuration sample_test \<noteq> None
   \<and> kv (sample_world [] 1060) (getDeduplicationCacheKey ''h1'') = None
   \<and> results (snd (notify sample_hash sample_worker sample_test None None (sample_world [] 1060)))
       \<noteq> results (sample_world [] 1060)"
  by (simp add: notify_def redis_defs sample_defs Let_def newResult_def)

text \<open>
  Claim C4.  A passing test with a deduplication rule whose cache-time key is present, on
  a Redis server that answers: exactly one Result is pushed, it has \<open>Recovered\<close> set and no
  error, and afterwards the cache-time key and the last-alert-time key of its hash are
  both absent.
\<close>

theorem notify_recovery:
  assumes "r_client p" and "Test.DedupDuration t = Some d" and "\<forall>n. \<not> down w n"
    and "kv w (getDeduplicationCacheKey (H (newResult p t None details (clock w (reads w))))) = Some x"
  shows "let r = newResult p t None details (clock w (reads w));
             w' = snd (notify H p t None details w)
         in results w' = results w @ [r\<lparr>Recovered := True\<rparr>]
          \<and> Result.Error r = None
          \<and> kv w' (getDeduplicationCacheKey (H r)) = None
          \<and> kv w' (getDeduplicationLastAlertKey (H r)) = None"
  using assms
  by (cases x) (simp add: notify_def redis_defs Let_def newResult_def)

theorem notify_recovery_witness:
  "r_client sample_worker \<and> Test.DedupDuration sample_test = Some 300000000000
   \<and> results (snd (notify sample_hash sample_worker sample_test None None
         (sample_world [(''overseer.dedup-cache.h1'', 1000, 3000000000000),
                        (''overseer.dedup-last-alert.h1'', 1000, 3000000000000)] 1420)))
       = [(newResult sample_worker sample_test None None 1420)\<lparr>Recovered := True\<rparr>]
   \<and> kv (snd (notify sample_hash sample_worker sample_test None None
         (sample_world [(''overseer.dedup-cache.h1'', 1000, 3000000000000),
                        (''overseer.dedup-last-alert.h1'', 1000, 3000000000000)] 1420)))
         ''overseer.dedup-cache.h1'' = None
   \<and> kv (snd (notify sample_hash sample_worker sample_test None None
         (sample_world [(''overseer.dedup-cache.h1'', 1000, 3000000000000),
                        (''overseer.dedup-last-alert.h1'', 1000, 3000000000000)] 1420)))
         ''overseer.dedup-last-alert.h1'' = None"
  using notify_recovery [of sample_worker sample_test 300000000000
      "sample_world [(''overseer.dedup-cache.h1'', 1000, 3000000000000),
                     (''overseer.dedup-last-alert.h1'', 1000, 3000000000000)] 1420"
      sample_hash None "(1000, 3000000000000)"]
  by (simp add: sample_defs Let_def)

subsection \<open>Invocations of the handler\<close>

lemma only_invokes_refl: "only_invokes w w"
  by (simp add: only_invokes_def probes_def)

lemma only_invokes_trans: "only_invokes w w' \<Longrightarrow> only_invokes w' w'' \<Longrightarrow> only_invokes w w''"
  unfolding only_invokes_def probes_def
  by (metis (no_types, lifting) append.assoc append_eq_conv_conj world.select_convs(8)
      world.surjective world.update_convs(8))

lemma only_invokes_invoke: "only_invokes w (snd (invoke tmp tst target w))"
  by (simp add: only_invokes_def probes_def invoke_def)

lemma only_invokes_fields:
  assumes "only_invokes w w'"
  shows "kv w' = kv w" and "results w' = results w" and "jobs w' = jobs w"
    and "cmds w' = cmds w" and "reads w' = reads w" and "down w' = down w"
    and "clock w' = clock w"
proof -
  have eq: "w' = w\<lparr>invocations := invocations w @ probes w w'\<rparr>"
    using assms by (simp add: only_invokes_def)
  show "kv w' = kv w" using arg_cong [OF eq, of kv] by simp
  show "results w' = results w" using arg_cong [OF eq, of results] by simp
  show "jobs w' = jobs w" using arg_cong [OF eq, of jobs] by simp
  show "cmds w' = cmds w" using arg_cong [OF eq, of cmds] by simp
  show "reads w' = reads w" using arg_cong [OF eq, of reads] by simp
  show "down w' = down w" using arg_cong [OF eq, of down] by simp
  show "clock w' = clock w" using arg_cong [OF eq, of clock] by simp
qed

lemma periodLoop_only_invokes:
  "only_invokes w (snd (snd (snd (periodLoop E tmp tst targets i n k cs cf es w))))"
proof (induction n arbitrary: k cs cf es w)
  case 0
  show ?case by (simp add: only_invokes_refl)
next
  case (Suc n)
  obtain x w1 where inv: "invoke tmp tst (targetRead E targets i k) w = (x, w1)"
    by (cases "invoke tmp tst (targetRead E targets i k) w")
  have step: "only_invokes w w1"
    using only_invokes_invoke [of w tmp tst "targetRead E targets i k"] inv by simp
  show ?case
    using inv only_invokes_trans [OF step Suc.IH]
    by (cases x) simp_all
qed

lemma retryLoop_only_invokes:
  assumes "retryLoop E tmp tst targets i m a c r res w = Some y"
  shows "only_invokes w (snd (snd (snd y)))"
proof (rule retryLoop.raw_induct
    [where P = "\<lambda>E tmp tst targets i m a c r res w y. only_invokes w (snd (snd (snd y)))",
      OF _ assms])
  fix rl E tmp tst targets i and m a c :: uint and r and res :: "error option" and w
    and y :: "uint \<times> nat \<times> error option \<times> world"
  assume IH: "\<And>E' tmp' tst' targets' i' m' a' c' r' res' w' y'.
      rl E' tmp' tst' targets' i' m' a' c' r' res' w' = Some y'
      \<Longrightarrow> only_invokes w' (snd (snd (snd y')))"
    and step: "(if a < m then
        (case invoke tmp tst (targetRead E targets i r) w of
           (None, w') \<Rightarrow> rl E tmp tst targets i m (m + 1) (c + 1) (Suc r) None w'
         | (Some err, w') \<Rightarrow> rl E tmp tst targets i m (a + 1) (c + 1) (Suc r) (Some err) w')
      else Some (c, r, res, w)) = Some y"
  show "only_invokes w (snd (snd (snd y)))"
  proof (cases "a < m")
    case False
    then have "snd (snd (snd y)) = w"
      using step by auto
    then show ?thesis
      by (simp add: only_invokes_refl)
  next
    case True
    obtain x w1 where inv: "invoke tmp tst (targetRead E targets i r) w = (x, w1)"
      by (cases "invoke tmp tst (targetRead E targets i r) w")
    have s: "only_invokes w w1"
      using only_invokes_invoke [of w tmp tst "targetRead E targets i r"] inv by simp
    have "only_invokes w1 (snd (snd (snd y)))"
      using step True inv IH by (cases x) auto
    then show ?thesis
      using s only_invokes_trans by blast
  qed
qed

lemma notify_invocations [simp]: "invocations (snd (notify H p t e d w)) = invocations w"
  by (simp add: notify_def redis_defs Let_def split: option.splits prod.splits sum.splits)

subsection \<open>What a run of a test does to the store\<close>

text \<open>
  A run of a test changes the store through \<^verbatim>\<open>notify\<close> only, and \<^verbatim>\<open>notify\<close> gets the test
  with the deduplication rule that \<^verbatim>\<open>runTest\<close> has settled.  So a relation between
  states that is reflexive and transitive, that contains the invocations of the handler
  and every call of \<^verbatim>\<open>notify\<close> with that rule, contains the run.
\<close>

lemma testEndFn_rel:
  assumes "\<And>w. R w w"
    and "\<And>t e d w. Test.DedupDuration t = Test.DedupDuration tst
           \<Longrightarrow> R w (snd (notify (Hash E) p t e d w))"
  shows "R w (snd (testEndFn E p tst n i target result details w))"
  using assms by (simp add: testEndFn_def Let_def)

lemma periodResult_world:
  "snd (snd (periodResult E p tmp tst targets i w))
     = snd (snd (snd (periodLoop E tmp tst targets i (periodIterations E tst i) 0 0 0 [] w)))"
  by (simp add: periodResult_def Let_def split: prod.splits)

lemma goroutine_cases:
  assumes "goroutine E p tmp tst targets i w = Some (x, w')"
  shows "\<exists>w1 target result details.
           only_invokes w w1
         \<and> (x, w') = testEndFn E p tst (length targets) i target result details w1"
proof (cases "Test.PeriodTestDuration tst = None")
  case False
  obtain result details w1 where pr: "periodResult E p tmp tst targets i w = (result, details, w1)"
    by (cases "periodResult E p tmp tst targets i w") auto
  have "only_invokes w w1"
    using periodResult_world [of E p tmp tst targets i w] pr
      periodLoop_only_invokes [of w E tmp tst targets i "periodIterations E tst i" 0 0 0 "[]"]
    by simp
  moreover have "(x, w') = testEndFn E p tst (length targets) i
      (targetRead E targets i (periodIterations E tst i)) result details w1"
    using assms False pr by (auto simp: goroutine_def)
  ultimately show ?thesis
    by blast
next
  case True
  then obtain c r result w1 where
    rl: "retryLoop E tmp tst targets i (maxAttemptsOf p tst) 0 0 0 None w = Some (c, r, result, w1)"
    using assms by (auto simp: goroutine_def split: option.splits)
  have "only_invokes w w1"
    using retryLoop_only_invokes [OF rl] by simp
  moreover have "(x, w') = testEndFn E p tst (length targets) i (targetRead E targets i r) result None w1"
    using assms True rl by (auto simp: goroutine_def)
  ultimately show ?thesis
    by blast
qed

lemma goroutine_rel:
  assumes refl: "\<And>w. R w w"
    and trans: "\<And>w w' w''. R w w' \<Longrightarrow> R w' w'' \<Longrightarrow> R w w''"
    and inv: "\<And>w w'. only_invokes w w' \<Longrightarrow> R w w'"
    and nt: "\<And>t e d w. Test.DedupDuration t = Test.DedupDuration tst
           \<Longrightarrow> R w (snd (notify (Hash E) p t e d w))"
    and run: "goroutine E p tmp tst targets i w = Some (x, w')"
  shows "R w w'"
proof -
  obtain w1 target result details where a: "only_invokes w w1"
    and b: "(x, w') = testEndFn E p tst (length targets) i target result details w1"
    using goroutine_cases [OF run] by blast
  have "R w1 (snd (testEndFn E p tst (length targets) i target result details w1))"
    using refl nt by (rule testEndFn_rel)
  then have "R w1 w'"
    using b [symmetric] by simp
  then show ?thesis
    using inv [OF a] trans by blast
qed

lemma runGoroutines_rel:
  assumes refl: "\<And>w. R w w"
    and trans: "\<And>w w' w''. R w w' \<Longrightarrow> R w' w'' \<Longrightarrow> R w w''"
    and inv: "\<And>w w'. only_invokes w w' \<Longrightarrow> R w w'"
    and nt: "\<And>t e d w. Test.DedupDuration t = Test.DedupDuration tst
           \<Longrightarrow> R w (snd (notify (Hash E) p t e d w))"
  shows "runGoroutines E p tmp tst targets js w = Some (x, w') \<Longrightarrow> R w w'"
proof (induction js arbitrary: w)
  case Nil
  then show ?case by (simp add: refl)
next
  case (Cons j js)
  obtain y w1 where g: "goroutine E p tmp tst targets j w = Some (y, w1)"
    using Cons.prems by (auto split: option.splits)
  have first: "R w w1"
    using refl trans inv nt g by (rule goroutine_rel)
  show ?case
  proof (cases y)
    case Panics
    then show ?thesis
      using Cons.prems g first by simp
  next
    case (Returns u)
    then have "runGoroutines E p tmp tst targets js w1 = Some (x, w')"
      using Cons.prems g by simp
    then show ?thesis
      using Cons.IH first trans by blast
  qed
qed

lemma runTargets_rel:
  assumes refl: "\<And>w. R w w"
    and trans: "\<And>w w' w''. R w w' \<Longrightarrow> R w' w'' \<Longrightarrow> R w w''"
    and inv: "\<And>w w'. only_invokes w w' \<Longrightarrow> R w w'"
    and nt: "\<And>t e d w. Test.DedupDuration t = Test.DedupDuration tst
           \<Longrightarrow> R w (snd (notify (Hash E) p t e d w))"
    and run: "runTargets E p tmp tst targets w = Some (x, w')"
  shows "R w w'"
proof -
  obtain y where "runGoroutines E p tmp tst targets [0..<length targets] w = Some (y, w')"
    using run by (auto simp: runTargets_def split: option.splits exec.splits prod.splits)
  with refl trans inv nt show ?thesis
    by (rule runGoroutines_rel)
qed

subsection \<open>The ways through runTest\<close>

lemma runTest_cases:
  assumes "runTest E p tst w = Some (x, w')"
  shows "w' = w
       \<or> (\<exists>t e. Test.DedupDuration t = Test.DedupDuration (defaultDedup p tst)
                \<and> w' = snd (notify (Hash E) p t e None w))
       \<or> (\<exists>tmp targets. runTargets E p tmp (defaultDedup p tst) targets w = Some (x, w'))"
proof (cases "ProtocolHandler E (Test.Type (defaultDedup p tst))")
  case None
  then show ?thesis
    using assms by (simp add: runTest_def Let_def)
next
  case (Some tmp)
  show ?thesis
  proof (cases "ShouldResolveHostname tmp")
    case False
    then show ?thesis
      using assms Some by (auto simp: runTest_def Let_def split: option.splits)
  next
    case True
    show ?thesis
    proof (cases "if Contains (Test.Target (defaultDedup p tst)) ''://''
                  then urlHostname E (Test.Target (defaultDedup p tst))
                  else Inr (Test.Target (defaultDedup p tst))")
      case (Inl err)
      then show ?thesis
        using assms Some True by (simp add: runTest_def Let_def)
    next
      case (Inr host)
      show ?thesis
      proof (cases "LookupIP E host")
        case (Inl err)
        have "w' = snd (notify (Hash E) p
                 ((defaultDedup p tst)\<lparr>Test.Input := Sanitize E (defaultDedup p tst)\<rparr>)
                 (Some (''failed to resolve name '' @ host)) None w)"
          using assms Some True Inr Inl
          by (simp add: runTest_def Let_def split: prod.splits)
        then show ?thesis
          by (intro disjI2 disjI1 exI conjI) simp_all
      next
        case ips: (Inr ips)
        then show ?thesis
          using assms Some True Inr
          by (auto simp: runTest_def Let_def split: option.splits)
      qed
    qed
  qed
qed

lemma runTest_rel:
  assumes refl: "\<And>w. R w w"
    and trans: "\<And>w w' w''. R w w' \<Longrightarrow> R w' w'' \<Longrightarrow> R w w''"
    and inv: "\<And>w w'. only_invokes w w' \<Longrightarrow> R w w'"
    and nt: "\<And>t e d w. Test.DedupDuration t = Test.DedupDuration (defaultDedup p tst)
           \<Longrightarrow> R w (snd (notify (Hash E) p t e d w))"
    and run: "runTest E p tst w = Some (x, w')"
  shows "R w w'"
proof -
  consider "w' = w"
    | t e where "Test.DedupDuration t = Test.DedupDuration (defaultDedup p tst)"
        and "w' = snd (notify (Hash E) p t e None w)"
    | tmp targets where "runTargets E p tmp (defaultDedup p tst) targets w = Some (x, w')"
    using runTest_cases [OF run] by blast
  then show ?thesis
  proof cases
    case 1
    then show ?thesis by (simp add: refl)
  next
    case 2
    then show ?thesis by (simp add: nt)
  next
    case 3
    with refl trans inv nt show ?thesis
      by (rule runTargets_rel)
  qed
qed

subsection \<open>Invariants of the published Results\<close>

lemma notify_results:
  "results (snd (notify H p t e d w)) = results w \<or>
   (\<exists>r. results (snd (notify H p t e d w)) = results w @ [r] \<and> result_inv r)"
  by (auto simp: notify_def redis_defs Let_def newResult_def result_inv_def
      split: option.splits prod.splits sum.splits if_splits)

lemma extends_ok_refl: "extends_ok w w"
  by (simp add: extends_ok_def published_def)

lemma extends_ok_trans: "extends_ok w w' \<Longrightarrow> extends_ok w' w'' \<Longrightarrow> extends_ok w w''"
  unfolding extends_ok_def published_def
  by (metis (no_types, lifting) append.assoc append_eq_conv_conj list_all_append)

lemma only_invokes_extends: "only_invokes w w' \<Longrightarrow> extends_ok w w'"
  by (simp add: extends_ok_def published_def only_invokes_fields)

lemma notify_extends: "extends_ok w (snd (notify H p t e d w))"
  using notify_results [of H p t e d w]
  by (auto simp: extends_ok_def published_def)

lemma runTest_extends:
  assumes "runTest E p tst w = Some (x, w')"
  shows "extends_ok w w'"
  using extends_ok_refl extends_ok_trans only_invokes_extends notify_extends assms
  by (rule runTest_rel)

lemma handleJob_extends: "handleJob E p testObject w = Some (x, w') \<Longrightarrow> extends_ok w w'"
  by (auto simp: handleJob_def extends_ok_refl
      split: option.splits if_splits sum.splits prod.splits exec.splits
      dest: runTest_extends)

text \<open>
  Claim C5.  Results reach \<^verbatim>\<open>overseer.results\<close> through \<^verbatim>\<open>notify\<close> only.  Whatever
  job the worker handles, whatever the handler, the resolver and the Redis server answer:
  the run only appends to the list, and every Result it appends has no error when it is
  \<open>Recovered\<close> and has an error when it is \<open>IsDedup\<close>.
\<close>

theorem published_results_invariants:
  assumes "handleJob E p testObject w = Some (x, w')"
  shows "results w' = results w @ published w w'
       \<and> (\<forall>r \<in> set (published w w').
            (Recovered r \<longrightarrow> Result.Error r = None) \<and> (IsDedup r \<longrightarrow> Result.Error r \<noteq> None))"
  using handleJob_extends [OF assms]
  by (simp add: extends_ok_def list_all_iff result_inv_def)

lemmas runTest_defs = runTest_def defaultDedup_def limitTargets_def runTargets_def goroutine_def
  maxAttemptsOf_def testEndFn_def targetRead_def invoke_def periodResult_def

lemmas sample_run_defs = runTest_defs notify_def newResult_def redis_defs sample_defs
  plain_test_def period_test_def host_period_test_def dedup_worker_def sample_env_def
  late_env_def clash_env_def two_addresses_def sample_f32_def failing_handler_def
  resolving_handler_def f32_100_def Contains_def Let_def decimal.simps int64_quo_def Second_def
  signed_divide_int_def word_sless_alt

text \<open>A job that passes while the cache-time key of its hash is present.\<close>

lemma sample_recovery_run:
  "handleJob (sample_env flaky_handler sample_test) sample_worker [''overseer.jobs'', ''job'']
     (sample_world [(''overseer.dedup-cache.h1'', 1000, 3000000000000)] 1420)
   = Some (Returns (),
       (sample_world [(''overseer.dedup-cache.h1'', 1000, 3000000000000)] 1420)
         \<lparr>kv := (map_of [(''overseer.dedup-cache.h1'', 1000, 3000000000000)])
                  (''overseer.dedup-cache.h1'' := None, ''overseer.dedup-last-alert.h1'' := None),
          results := [(newResult sample_worker sample_test None None 1420)\<lparr>Recovered := True\<rparr>],
          cmds := 4, reads := 1,
          invocations := [''192.0.2.1'', ''192.0.2.1'', ''192.0.2.1'']\<rparr>)"
  by (simp add: handleJob_def index_def runTest_defs sample_env_def flaky_handler_def
      retryLoop.simps notify_def redis_defs sample_defs Let_def newResult_def)

theorem published_results_invariants_witness:
  "map_option fst
     (handleJob (sample_env flaky_handler sample_test) sample_worker [''overseer.jobs'', ''job'']
        (sample_world [(''overseer.dedup-cache.h1'', 1000, 3000000000000)] 1420))
     = Some (Returns ())
   \<and> map_option
       (published (sample_world [(''overseer.dedup-cache.h1'', 1000, 3000000000000)] 1420) \<circ> snd)
       (handleJob (sample_env flaky_handler sample_test) sample_worker [''overseer.jobs'', ''job'']
          (sample_world [(''overseer.dedup-cache.h1'', 1000, 3000000000000)] 1420))
     = Some [(newResult sample_worker sample_test None None 1420)\<lparr>Recovered := True\<rparr>]
   \<and> Recovered ((newResult sample_worker sample_test None None 1420)\<lparr>Recovered := True\<rparr>)
   \<and> Result.Error ((newResult sample_worker sample_test None None 1420)\<lparr>Recovered := True\<rparr>) = None"
  using published_results_invariants [OF sample_recovery_run] sample_recovery_run
  by (simp add: published_def sample_world_def)

subsection \<open>Runs without deduplication\<close>






subsection \<open>Retries\<close>

text \<open>
  Claim C2.  The specification has between 1 and 1 + \<^verbatim>\<open>maxRetries\<close> invocations of the
  handler for a test that is not a period-test, with the retry count of the worker in
  the place of \<^verbatim>\<open>maxRetries\<close> when the test sets none, and exactly one invocation when the
  retry flag of the worker is off.  The code takes the retry count of the worker itself
  as the number of attempts.  On a worker started with \<^verbatim>\<open>-retry-count=0\<close> the loop is
  never entered: the handler, which would fail, is not invoked at all, the result stays
  nil and a Result without error is published.  With the retry flag off and
  \<^verbatim>\<open>maxRetries\<close> set to 2, a handler that always fails is invoked three times, not once.
  With the retry count 5 of the defaults it is invoked five times, not six.
\<close>

theorem retry_count_zero_never_probes:
  "RetryCount (sample_worker\<lparr>RetryCount := 0\<rparr>) = 0
   \<and> Retry (sample_worker\<lparr>RetryCount := 0\<rparr>)
   \<and> MaxRetries plain_test = None \<and> PeriodTestDuration plain_test = None
   \<and> map_option (invocations \<circ> snd)
         (runTest (sample_env failing_handler plain_test) (sample_worker\<lparr>RetryCount := 0\<rparr>)
            plain_test (sample_world [] 1000))
       = Some []
   \<and> map_option (map Result.Error \<circ> results \<circ> snd)
         (runTest (sample_env failing_handler plain_test) (sample_worker\<lparr>RetryCount := 0\<rparr>)
            plain_test (sample_world [] 1000))
       = Some [None]
   \<and> \<not> Retry (sample_worker\<lparr>Retry := False\<rparr>)
   \<and> map_option (invocations \<circ> snd)
         (runTest (sample_env failing_handler plain_test) (sample_worker\<lparr>Retry := False\<rparr>)
            (plain_test\<lparr>MaxRetries := Some 2\<rparr>) (sample_world [] 1000))
       = Some [''192.0.2.1'', ''192.0.2.1'', ''192.0.2.1'']
   \<and> RetryCount sample_worker = 5
   \<and> map_option (invocations \<circ> snd)
         (runTest (sample_env failing_handler plain_test) sample_worker plain_test
            (sample_world [] 1000))
       = Some [''192.0.2.1'', ''192.0.2.1'', ''192.0.2.1'', ''192.0.2.1'', ''192.0.2.1'']"
  by (simp add: runTest_defs sample_env_def failing_handler_def plain_test_def
      retryLoop.simps notify_def redis_defs sample_defs Let_def newResult_def)

subsection \<open>A test with a single target\<close>

lemma defaultDedup_fields [simp]:
  "Test.Type (defaultDedup p tst) = Test.Type tst"
  "Test.Target (defaultDedup p tst) = Test.Target tst"
  "Test.Input (defaultDedup p tst) = Test.Input tst"
  "MaxRetries (defaultDedup p tst) = MaxRetries tst"
  "PeriodTestDuration (defaultDedup p tst) = PeriodTestDuration tst"
  by (simp_all add: defaultDedup_def)

lemma limitTargets_single [simp]: "limitTargets tst [x] = [x]"
  by (simp add: limitTargets_def word_sless_alt)

lemma targetRead_single [simp]: "targetRead E [x] 0 r = x"
  by (simp add: targetRead_def)





subsection \<open>The default deduplication\<close>








subsection \<open>Period-tests\<close>









subsection \<open>Failing name resolution\<close>

lemma notify_failure_published:
  assumes "r_client p" and "\<forall>n. \<not> down w n"
    and "Test.DedupDuration t = None
         \<or> kv w (getDeduplicationLastAlertKey (H (newResult p t (Some e) details (clock w (reads w)))))
             = None"
  shows "results (snd (notify H p t (Some e) details w))
           = results w @ [newResult p t (Some e) details (clock w (reads w))]"
  using assms
  by (auto simp: notify_def redis_defs Let_def newResult_def split: option.splits)

text \<open>
  Claim C8, as the code has it.  When the handler resolves hostnames and the lookup of
  the host fails, \<^verbatim>\<open>runTest\<close> returns the error of the lookup after one call of
  \<^verbatim>\<open>notify\<close>, for a Result with the sanitized input and the error
  \<^verbatim>\<open>failed to resolve name <host>\<close>; the handler has been invoked as often after the run
  as before it.  The Result is pushed when the Redis server answers and the test, after
  the default of the worker, has no deduplication rule or no last-alert time is stored
  for its hash.
\<close>

theorem resolution_failure:
  assumes "ProtocolHandler E (Test.Type tst) = Some tmp" and "ShouldResolveHostname tmp"
    and "(if Contains (Test.Target tst) ''://'' then urlHostname E (Test.Target tst)
          else Inr (Test.Target tst)) = Inr host"
    and "LookupIP E host = Inl err"
  shows "let tst' = (defaultDedup p tst)\<lparr>Test.Input := Sanitize E (defaultDedup p tst)\<rparr>;
             resultError = ''failed to resolve name '' @ host;
             r = newResult p tst' (Some resultError) None (clock w (reads w));
             w' = snd (notify (Hash E) p tst' (Some resultError) None w)
         in runTest E p tst w = Some (Returns (Some err), w')
          \<and> invocations w' = invocations w
          \<and> Result.Input r = Sanitize E (defaultDedup p tst)
          \<and> Result.Error r = Some resultError
          \<and> (r_client p \<and> (\<forall>n. \<not> down w n)
               \<and> (Test.DedupDuration (defaultDedup p tst) = None
                  \<or> kv w (getDeduplicationLastAlertKey (Hash E r)) = None)
              \<longrightarrow> results w' = results w @ [r])"
proof -
  define tst' where "tst' = (defaultDedup p tst)\<lparr>Test.Input := Sanitize E (defaultDedup p tst)\<rparr>"
  define resultError where "resultError = ''failed to resolve name '' @ host"
  have run: "runTest E p tst w
               = Some (Returns (Some err), snd (notify (Hash E) p tst' (Some resultError) None w))"
    using assms
    by (auto simp: runTest_def Let_def tst'_def resultError_def split: prod.splits if_splits)
  have inv: "invocations (snd (notify (Hash E) p tst' (Some resultError) None w)) = invocations w"
    by (rule notify_invocations)
  have d: "Test.DedupDuration tst' = Test.DedupDuration (defaultDedup p tst)"
    by (simp add: tst'_def)
  have pub: "r_client p \<and> (\<forall>n. \<not> down w n)
             \<and> (Test.DedupDuration (defaultDedup p tst) = None
                \<or> kv w (getDeduplicationLastAlertKey
                     (Hash E (newResult p tst' (Some resultError) None (clock w (reads w))))) = None)
            \<longrightarrow> results (snd (notify (Hash E) p tst' (Some resultError) None w))
                 = results w @ [newResult p tst' (Some resultError) None (clock w (reads w))]"
    using notify_failure_published [of p w tst' "Hash E" resultError None] d by auto
  have f: "Result.Input (newResult p tst' (Some resultError) None (clock w (reads w)))
             = Sanitize E (defaultDedup p tst)"
    "Result.Error (newResult p tst' (Some resultError) None (clock w (reads w)))
             = Some resultError"
    by (simp_all add: newResult_def tst'_def)
  show ?thesis
    unfolding Let_def tst'_def [symmetric] resultError_def [symmetric]
    using run inv pub f by blast
qed

lemma sample_resolution_run:
  "map_option fst
        (runTest (sample_env resolving_handler unresolved_test) sample_worker unresolved_test
           (sample_world [] 1000))
       = Some (Returns (Some ''lookup: no such host''))
   \<and> map_option (results \<circ> snd)
        (runTest (sample_env resolving_handler unresolved_test) sample_worker unresolved_test
           (sample_world [] 1000))
       = Some [newResult sample_worker unresolved_test
                 (Some ''failed to resolve name does.not.exist'') None 1000]
   \<and> map_option (invocations \<circ> snd)
        (runTest (sample_env resolving_handler unresolved_test) sample_worker unresolved_test
           (sample_world [] 1000))
       = Some []"
  by (simp add: sample_run_defs unresolved_test_def)

theorem resolution_failure_witness:
  "ProtocolHandler (sample_env resolving_handler unresolved_test) (Test.Type unresolved_test)
     = Some resolving_handler
   \<and> ShouldResolveHostname resolving_handler
   \<and> LookupIP (sample_env resolving_handler unresolved_test) ''does.not.exist''
       = Inl ''lookup: no such host''
   \<and> map_option fst
        (runTest (sample_env resolving_handler unresolved_test) sample_worker unresolved_test
           (sample_world [] 1000))
       = Some (Returns (Some ''lookup: no such host''))
   \<and> map_option (results \<circ> snd)
        (runTest (sample_env resolving_handler unresolved_test) sample_worker unresolved_test
           (sample_world [] 1000))
       = Some [newResult sample_worker unresolved_test
                 (Some ''failed to resolve name does.not.exist'') None 1000]
   \<and> map_option (invocations \<circ> snd)
        (runTest (sample_env resolving_handler unresolved_test) sample_worker unresolved_test
           (sample_world [] 1000))
       = Some []"
  using resolution_failure [of "sample_env resolving_handler unresolved_test" unresolved_test
      resolving_handler "''does.not.exist''" "''lookup: no such host''" sample_worker
      "sample_world [] 1000"]
    sample_resolution_run
  by (simp add: sample_env_def unresolved_test_def resolving_handler_def)

text \<open>
  Claim C8 as the specification words it has exactly one Result for every failing
  resolution.  With a deduplication rule and an alert one minute old, the failure is
  suppressed: no Result is pushed.
\<close>

theorem resolution_failure_counterexample:
  "LookupIP (sample_env resolving_handler unresolved_test) ''does.not.exist''
     = Inl ''lookup: no such host''
   \<and> Test.DedupDuration unresolved_test = Some 300000000000
   \<and> map_option (results \<circ> snd)
        (runTest (sample_env resolving_handler unresolved_test) sample_worker unresolved_test
           (sample_world [(''overseer.dedup-last-alert.h1'', 1000, 3000000000000)] 1060))
       = Some []"
  by (simp add: sample_run_defs unresolved_test_def)

subsection \<open>The worker loop\<close>

text \<open>
  A turn of the fetching goroutine that finds \<^verbatim>\<open>exit\<close> set after the pop, and that is
  left to finish, puts the job back at the tail of the queue.
\<close>

lemma fetchJob_requeues:
  assumes "jobs w = J # rest" and "\<not> down w (cmds w)" and "\<not> down w (Suc (cmds w))"
  shows "fetchJob False True w = Some (Returns Exited, w\<lparr>jobs := rest @ [J], cmds := cmds w + 2\<rparr>)"
  using assms
  by (simp add: fetchJob_def blpopJobs_def afterPop_def index_def rpushJobs_def failing_def sent_def)

lemma steps_into: "(step E p)\<^sup>*\<^sup>* s t \<Longrightarrow> step E p t u \<Longrightarrow> (step E p)\<^sup>*\<^sup>* s u"
  by (rule rtranclp.rtrancl_into_rtrancl)

text \<open>
  The fetching goroutine has popped a job and found \<^verbatim>\<open>exit\<close> unset at its second look;
  the shutdown signal arrives before the job is handed over.  The send on the closed
  \<^verbatim>\<open>testObjectChan\<close> panics: the job is neither run nor put back.
\<close>

lemma send_on_closed_channel:
  "(step (sample_env failing_handler plain_test) sample_worker)\<^sup>*\<^sup>*
     (slotStart ((sample_world [] 1000)\<lparr>jobs := [sample_job]\<rparr>))
     \<lparr>exit = True, testObjectChanClosed = True, workerAvailableChanClosed = False,
      watcher = S_closed1, fetcher = F_panicked, mainLoop = M_range,
      store = (sample_world [] 1000)\<lparr>cmds := 1\<rparr>\<rparr>"
proof -
  let ?E = "sample_env failing_handler plain_test"
  let ?w = "(sample_world [] 1000)\<lparr>jobs := [sample_job]\<rparr>"
  let ?w' = "(sample_world [] 1000)\<lparr>cmds := 1\<rparr>"
  let ?J = "[''overseer.jobs'', sample_job]"
  let ?s0 = "slotStart ?w"
  let ?s1 = "?s0\<lparr>mainLoop := M_range, fetcher := F_check1\<rparr>"
  let ?s2 = "?s1\<lparr>fetcher := F_pop\<rparr>"
  let ?s3 = "?s2\<lparr>fetcher := F_check2 ?J, store := ?w'\<rparr>"
  let ?s4 = "?s3\<lparr>fetcher := F_send ?J\<rparr>"
  let ?s5 = "?s4\<lparr>exit := True, watcher := S_exit_set\<rparr>"
  let ?s6 = "?s5\<lparr>testObjectChanClosed := True, watcher := S_closed1\<rparr>"
  let ?s7 = "?s6\<lparr>fetcher := F_panicked\<rparr>"
  have 1: "step ?E sample_worker ?s0 ?s1"
    by (rule step.available) (simp_all add: slotStart_def)
  have 2: "step ?E sample_worker ?s1 ?s2"
    using step.first_check [of ?s1 ?E sample_worker]
    by (simp add: slotStart_def exitLockFree_def)
  have 3: "step ?E sample_worker ?s2 ?s3"
    by (rule step.pop)
      (simp_all add: slotStart_def blpopJobs_def failing_def sent_def sample_world_def)
  have 4: "step ?E sample_worker ?s3 ?s4"
    using step.second_check [of ?s3 ?J ?E sample_worker]
    by (simp add: slotStart_def exitLockFree_def)
  have 5: "step ?E sample_worker ?s4 ?s5"
    by (rule step.signal) (simp add: slotStart_def)
  have 6: "step ?E sample_worker ?s5 ?s6"
    by (rule step.close_testObjectChan) simp
  have 7: "step ?E sample_worker ?s6 ?s7"
    by (rule step.deliver_send_closed [of _ ?J]) simp_all
  have r: "(step ?E sample_worker)\<^sup>*\<^sup>* ?s0 ?s7"
    using 1 2 3 4 5 6 7
    by (meson rtranclp.rtrancl_refl steps_into)
  have e: "?s7 = \<lparr>exit = True, testObjectChanClosed = True, workerAvailableChanClosed = False,
      watcher = S_closed1, fetcher = F_panicked, mainLoop = M_range, store = ?w'\<rparr>"
    by (simp add: slotStart_def)
  show ?thesis
    using r unfolding e .
qed

text \<open>
  Claim C9.  A slot whose fetching goroutine has popped job \<open>J\<close> when the shutdown
  signal arrives.  The goroutine finds \<^verbatim>\<open>exit\<close> set at its second look and turns to the
  requeue; the loop of \<^verbatim>\<open>workerLoop\<close> finds \<^verbatim>\<open>testObjectChan\<close> closed and returns.  In
  the state reached, \<^verbatim>\<open>workerLoop\<close> has returned, the job has not been executed, and it is
  not in \<^verbatim>\<open>overseer.jobs\<close>: the push is still to come, in a goroutine that nothing
  waits for.  Only if the process lives on does one more step of that goroutine put
  the job back.
\<close>

theorem worker_exits_before_requeue:
  "(step (sample_env failing_handler plain_test) sample_worker)\<^sup>*\<^sup>*
     (slotStart ((sample_world [] 1000)\<lparr>jobs := [sample_job]\<rparr>))
     \<lparr>exit = True, testObjectChanClosed = True, workerAvailableChanClosed = True,
      watcher = S_done, fetcher = F_requeue [''overseer.jobs'', sample_job],
      mainLoop = M_returned, store = (sample_world [] 1000)\<lparr>cmds := 1\<rparr>\<rparr>
   \<and> jobs ((sample_world [] 1000)\<lparr>cmds := 1\<rparr>) = []
   \<and> results ((sample_world [] 1000)\<lparr>cmds := 1\<rparr>) = []
   \<and> invocations ((sample_world [] 1000)\<lparr>cmds := 1\<rparr>) = []
   \<and> step (sample_env failing_handler plain_test) sample_worker
       \<lparr>exit = True, testObjectChanClosed = True, workerAvailableChanClosed = True,
        watcher = S_done, fetcher = F_requeue [''overseer.jobs'', sample_job],
        mainLoop = M_returned, store = (sample_world [] 1000)\<lparr>cmds := 1\<rparr>\<rparr>
       \<lparr>exit = True, testObjectChanClosed = True, workerAvailableChanClosed = True,
        watcher = S_done, fetcher = F_returned,
        mainLoop = M_returned, store = (sample_world [] 1000)\<lparr>jobs := [sample_job], cmds := 2\<rparr>\<rparr>"
proof -
  let ?E = "sample_env failing_handler plain_test"
  let ?w = "(sample_world [] 1000)\<lparr>jobs := [sample_job]\<rparr>"
  let ?w' = "(sample_world [] 1000)\<lparr>cmds := 1\<rparr>"
  let ?J = "[''overseer.jobs'', sample_job]"
  let ?s0 = "slotStart ?w"
  let ?s1 = "?s0\<lparr>mainLoop := M_range, fetcher := F_check1\<rparr>"
  let ?s2 = "?s1\<lparr>fetcher := F_pop\<rparr>"
  let ?s3 = "?s2\<lparr>fetcher := F_check2 ?J, store := ?w'\<rparr>"
  let ?s4 = "?s3\<lparr>exit := True, watcher := S_exit_set\<rparr>"
  let ?s5 = "?s4\<lparr>testObjectChanClosed := True, watcher := S_closed1\<rparr>"
  let ?s6 = "?s5\<lparr>workerAvailableChanClosed := True, watcher := S_done\<rparr>"
  let ?s7 = "?s6\<lparr>fetcher := F_requeue ?J\<rparr>"
  let ?s8 = "?s7\<lparr>mainLoop := M_returned\<rparr>"
  let ?s9 = "?s8\<lparr>fetcher := F_returned, store := (sample_world [] 1000)\<lparr>jobs := [sample_job], cmds := 2\<rparr>\<rparr>"
  have 1: "step ?E sample_worker ?s0 ?s1"
    by (rule step.available) (simp_all add: slotStart_def)
  have 2: "step ?E sample_worker ?s1 ?s2"
    using step.first_check [of ?s1 ?E sample_worker]
    by (simp add: slotStart_def exitLockFree_def)
  have 3: "step ?E sample_worker ?s2 ?s3"
    by (rule step.pop)
      (simp_all add: slotStart_def blpopJobs_def failing_def sent_def sample_world_def)
  have 4: "step ?E sample_worker ?s3 ?s4"
    by (rule step.signal) (simp add: slotStart_def)
  have 5: "step ?E sample_worker ?s4 ?s5"
    by (rule step.close_testObjectChan) simp
  have 6: "step ?E sample_worker ?s5 ?s6"
    by (rule step.close_workerAvailableChan) simp
  have 7: "step ?E sample_worker ?s6 ?s7"
    using step.second_check [of ?s6 ?J ?E sample_worker]
    by (simp add: exitLockFree_def)
  have 8: "step ?E sample_worker ?s7 ?s8"
    by (rule step.range_closed) (simp_all add: slotStart_def)
  have r: "(step ?E sample_worker)\<^sup>*\<^sup>* ?s0 ?s8"
    using 1 2 3 4 5 6 7 8
    by (meson rtranclp.rtrancl_refl steps_into)
  have e: "?s8 = \<lparr>exit = True, testObjectChanClosed = True, workerAvailableChanClosed = True,
      watcher = S_done, fetcher = F_requeue ?J, mainLoop = M_returned, store = ?w'\<rparr>"
    by (simp add: slotStart_def)
  have reach: "(step ?E sample_worker)\<^sup>*\<^sup>* ?s0
     \<lparr>exit = True, testObjectChanClosed = True, workerAvailableChanClosed = True,
      watcher = S_done, fetcher = F_requeue ?J, mainLoop = M_returned, store = ?w'\<rparr>"
    using r unfolding e .
  have late: "step ?E sample_worker
       \<lparr>exit = True, testObjectChanClosed = True, workerAvailableChanClosed = True,
        watcher = S_done, fetcher = F_requeue ?J, mainLoop = M_returned, store = ?w'\<rparr>
       \<lparr>exit = True, testObjectChanClosed = True, workerAvailableChanClosed = True,
        watcher = S_done, fetcher = F_returned, mainLoop = M_returned,
        store = (sample_world [] 1000)\<lparr>jobs := [sample_job], cmds := 2\<rparr>\<rparr>"
    using step.requeue
      [of "\<lparr>exit = True, testObjectChanClosed = True, workerAvailableChanClosed = True,
            watcher = S_done, fetcher = F_requeue ?J, mainLoop = M_returned, store = ?w'\<rparr>"
        ?J "Returns Exited" "(sample_world [] 1000)\<lparr>jobs := [sample_job], cmds := 2\<rparr>"
        ?E sample_worker]
    by (simp add: afterPop_def index_def rpushJobs_def failing_def sent_def sample_world_def)
  have empty: "jobs ?w' = [] \<and> results ?w' = [] \<and> invocations ?w' = []"
    by (simp add: sample_world_def)
  from reach empty late show ?thesis
    by blast
qed

text \<open>
  Claim C10.  Both uses of \<^verbatim>\<open>testObject[1]\<close> stand under the guard
  \<^verbatim>\<open>len(testObject) >= 1\<close>.  A list of length 1 passes the guard and the access panics,
  on the requeue path and on the parse path; under the guard the access is in range
  exactly when the list has at least 2 elements.
\<close>

theorem index_guard_too_weak:
  "(length testObject = 1 \<longrightarrow>
      1 \<le> length testObject
    \<and> afterPop True testObject w = (Panics, w)
    \<and> handleJob E p testObject w = Some (Panics, w))
   \<and> (1 \<le> length testObject \<longrightarrow> (index testObject 1 \<noteq> Panics \<longleftrightarrow> 2 \<le> length testObject))
   \<and> (2 \<le> length testObject \<longrightarrow> fst (afterPop True testObject w) \<noteq> Panics)"
  by (auto simp: afterPop_def handleJob_def index_def split: prod.splits)

theorem index_guard_too_weak_witness:
  "length [''overseer.jobs''] = 1
   \<and> afterPop True [''overseer.jobs''] (sample_world [] 1000) = (Panics, sample_world [] 1000)
   \<and> handleJob (sample_env failing_handler sample_test) sample_worker [''overseer.jobs'']
         (sample_world [] 1000)
       = Some (Panics, sample_world [] 1000)
   \<and> index [''overseer.jobs'', ''example.com must run ssh''] 1 = Returns ''example.com must run ssh''"
  using index_guard_too_weak [of "[''overseer.jobs'']" "sample_world [] 1000"
      "sample_env failing_handler sample_test" sample_worker]
  by (simp add: index_def)

end
